theory Spec2Isabelle
  imports Main "HOL-Library.Sublist"
begin

section \<open>The provisioning script \<^verbatim>\<open>scripts/database/create-table-python.py\<close>\<close>

text \<open>
  The script is a straight-line Python program: one \<^verbatim>\<open>print\<close> before a
  \<^verbatim>\<open>try\<close> block, the block itself (calls into the database client library,
  interleaved with prints, ending in \<^verbatim>\<open>sys.exit\<close>), and two exception handlers.
  Everything it does is either a \<^verbatim>\<open>print\<close> or a call into
  \<^verbatim>\<open>mysql.connector\<close>; the model records both in one event list and takes the
  library's answers from an environment.

  Modelling conventions.
  \<^item> A Python \<^verbatim>\<open>str\<close> is a \<^typ>\<open>string\<close> holding its UTF-8 bytes (the bytes
    that reach standard output); the emoji of the source are written as their bytes.
  \<^item> A library call either returns or raises an instance of \<^verbatim>\<open>Exception\<close>; a call
    that never returns, and an asynchronous \<^verbatim>\<open>KeyboardInterrupt\<close>, are outside the
    model. \<^verbatim>\<open>print\<close> always succeeds.
  \<^item> \<^verbatim>\<open>mysql.connector.connect\<close> is called with the keyword arguments fixed in the
    source (host, user, password, database, \<^verbatim>\<open>ssl_ca=None\<close>,
    \<^verbatim>\<open>ssl_disabled=False\<close>); they are constants, nothing in the script reads them
    again, and the call is the constructor \<open>Connect\<close>.
\<close>

subsection \<open>Python values and exceptions\<close>

text \<open>
  A field of a fetched row: a \<^verbatim>\<open>str\<close>, or any other object (\<^verbatim>\<open>bytes\<close>,
  \<^verbatim>\<open>None\<close>, \<^verbatim>\<open>int\<close>, ...) given by the text \<^verbatim>\<open>str()\<close> renders it as.
  Only a \<^verbatim>\<open>str\<close> can compare equal to the literal \<^verbatim>\<open>'NO'\<close>.
\<close>

datatype pyval = PyStr string | PyOther string

fun py_str :: "pyval \<Rightarrow> string" where
  "py_str (PyStr s) = s"
| "py_str (PyOther s) = s"

type_synonym row = "pyval list"

text \<open>
  What a library call can raise: an instance of \<^verbatim>\<open>mysql.connector.Error\<close>, or of
  another subclass of \<^verbatim>\<open>Exception\<close>; each carries the text of \<^verbatim>\<open>str(err)\<close>.
\<close>

datatype lib_error = DbError string | OtherError string

text \<open>
  The exceptions that propagate inside the script. \<^verbatim>\<open>SystemExit\<close> derives from
  \<^verbatim>\<open>BaseException\<close>, not from \<^verbatim>\<open>Exception\<close>.
\<close>

datatype py_exc = MySQLError string | OtherException string | SystemExit int

fun raise_of :: "lib_error \<Rightarrow> py_exc" where
  "raise_of (DbError m) = MySQLError m"
| "raise_of (OtherError m) = OtherException m"

fun is_mysql_error :: "py_exc \<Rightarrow> bool" where
  "is_mysql_error (MySQLError m) = True"
| "is_mysql_error (OtherException m) = False"
| "is_mysql_error (SystemExit n) = False"

fun is_exception :: "py_exc \<Rightarrow> bool" where
  "is_exception (MySQLError m) = True"
| "is_exception (OtherException m) = True"
| "is_exception (SystemExit n) = False"

fun exc_str :: "py_exc \<Rightarrow> string" where
  "exc_str (MySQLError m) = m"
| "exc_str (OtherException m) = m"
| "exc_str (SystemExit n) = []"

subsection \<open>Library calls, events and the environment\<close>

datatype call =
    Connect
  | Cursor
  | Execute string
  | Commit
  | Fetchall
  | CursorClose
  | ConnectionClose

text \<open>
  One event per \<^verbatim>\<open>print\<close> and per library call, the call with what came back:
  \<open>None\<close> for a normal return, the error raised otherwise; \<^verbatim>\<open>fetchall\<close> with the
  rows it returned.
\<close>

datatype event =
    Printed string
  | Called call "lib_error option"
  | Fetched "lib_error + row list"

fun calls_of :: "event list \<Rightarrow> call list" where
  "calls_of [] = []"
| "calls_of (Printed s # es) = calls_of es"
| "calls_of (Called c r # es) = c # calls_of es"
| "calls_of (Fetched r # es) = Fetchall # calls_of es"

fun printed_of :: "event list \<Rightarrow> string list" where
  "printed_of [] = []"
| "printed_of (Printed s # es) = s # printed_of es"
| "printed_of (Called c r # es) = printed_of es"
| "printed_of (Fetched r # es) = printed_of es"

text \<open>
  The environment (client library, network and server together) is deterministic: what a
  call does is a function of the calls made before it.
\<close>

record env =
  outcome :: "call list \<Rightarrow> call \<Rightarrow> lib_error option"
  fetched :: "call list \<Rightarrow> lib_error + row list"

subsection \<open>Statements of the script\<close>

type_synonym 'a prog = "event list \<Rightarrow> (py_exc + 'a) \<times> event list"

definition then_py :: "'a prog \<Rightarrow> ('a \<Rightarrow> 'b prog) \<Rightarrow> 'b prog" where
  "then_py m f evs = (case m evs of (Inl e, evs') \<Rightarrow> (Inl e, evs') | (Inr v, evs') \<Rightarrow> f v evs')"

definition py_print :: "string \<Rightarrow> unit prog" where
  "py_print s evs = (Inr (), evs @ [Printed s])"

definition lib_call :: "env \<Rightarrow> call \<Rightarrow> unit prog" where
  "lib_call en c evs =
     (case outcome en (calls_of evs) c of
        None \<Rightarrow> (Inr (), evs @ [Called c None])
      | Some e \<Rightarrow> (Inl (raise_of e), evs @ [Called c (Some e)]))"

definition fetchall :: "env \<Rightarrow> (row list) prog" where
  "fetchall en evs =
     (case fetched en (calls_of evs) of
        Inl e \<Rightarrow> (Inl (raise_of e), evs @ [Fetched (Inl e)])
      | Inr rows \<Rightarrow> (Inr rows, evs @ [Fetched (Inr rows)]))"

definition sys_exit :: "int \<Rightarrow> 'a prog" where
  "sys_exit n evs = (Inl (SystemExit n), evs)"

subsection \<open>String constants of the source\<close>

definition connecting_msg :: string where
  "connecting_msg = [CHR 0xF0, CHR 0x9F, CHR 0x94, CHR 0xA7] @ '' Connecting to production database...''"

definition connected_msg :: string where
  "connected_msg = [CHR 0xE2, CHR 0x9C, CHR 0x85] @ '' Connected successfully!''"

definition create_table_sql :: string where
  "create_table_sql =
   ''\<newline>'' @
   ''    CREATE TABLE IF NOT EXISTS access_logs (\<newline>'' @
   ''      id INT AUTO_INCREMENT PRIMARY KEY,\<newline>'' @
   ''      user_id INT NOT NULL,\<newline>'' @
   ''      access_type VARCHAR(50) NOT NULL COMMENT 'initial_purchase, renewal, research_access, etc.',\<newline>'' @
   ''      payment_amount_cents INT DEFAULT 0 COMMENT 'Payment amount in cents (999 = $9.99)',\<newline>'' @
   ''      ip_address VARCHAR(45) DEFAULT NULL COMMENT 'IPv4 or IPv6 address',\<newline>'' @
   ''      user_agent TEXT DEFAULT NULL COMMENT 'Browser user agent string',\<newline>'' @
   ''      created_at TIMESTAMP DEFAULT CURRENT_TIMESTAMP,\<newline>'' @
   ''\<newline>'' @
   ''      INDEX idx_user_id (user_id),\<newline>'' @
   ''      INDEX idx_access_type (access_type),\<newline>'' @
   ''      INDEX idx_created_at (created_at),\<newline>'' @
   ''\<newline>'' @
   ''      FOREIGN KEY (user_id) REFERENCES pump_users(id) ON DELETE CASCADE\<newline>'' @
   ''    ) ENGINE=InnoDB DEFAULT CHARSET=utf8mb4 COLLATE=utf8mb4_unicode_ci\<newline>'' @
   ''    COMMENT='Tracks user access events and payment history for PumpDrive'\<newline>'' @
   ''    ''"

definition creating_msg :: string where
  "creating_msg = [CHR 0xF0, CHR 0x9F, CHR 0x93, CHR 0x9D] @ '' Creating access_logs table...''"

definition created_msg :: string where
  "created_msg = [CHR 0xE2, CHR 0x9C, CHR 0x85] @ '' Table created successfully!''"

definition show_tables_sql :: string where
  "show_tables_sql = ''SHOW TABLES LIKE 'access_logs'' @ [CHR 0x27]"

definition describe_sql :: string where
  "describe_sql = ''DESCRIBE access_logs''"

definition structure_msg :: string where
  "structure_msg = ''\<newline>'' @ [CHR 0xF0, CHR 0x9F, CHR 0x93, CHR 0x8B] @ '' Table structure:''"

definition not_found_msg :: string where
  "not_found_msg = [CHR 0xE2, CHR 0x9D, CHR 0x8C] @ '' ERROR: Table not found after creation!''"

definition done_msg :: string where
  "done_msg = ''\<newline>'' @ [CHR 0xE2, CHR 0x9C, CHR 0xA8] @ '' Done! The access_logs table is now ready.''"

definition mysql_prefix :: string where
  "mysql_prefix = [CHR 0xE2, CHR 0x9D, CHR 0x8C] @ '' MySQL Error: ''"

definition generic_prefix :: string where
  "generic_prefix = [CHR 0xF0, CHR 0x9F, CHR 0x92, CHR 0xA5] @ '' Error: ''"

subsection \<open>Formatting\<close>

text \<open>The decimal text of \<^verbatim>\<open>len(result)\<close> inside the f-string of line 57.\<close>

definition digit_char :: "nat \<Rightarrow> char" where
  "digit_char d = char_of (48 + d)"

function str_nat :: "nat \<Rightarrow> string" where
  "str_nat n = (if n < 10 then [digit_char n] else str_nat (n div 10) @ [digit_char (n mod 10)])"
  by pat_completeness auto
termination
  by (relation "measure id") auto

definition verification_msg :: "nat \<Rightarrow> string" where
  "verification_msg n =
     [CHR 0xF0, CHR 0x9F, CHR 0x93, CHR 0x8A] @ '' Verification: Table exists! Found '' @
     str_nat n @ '' match(es)''"

text \<open>
  Indexing a row tuple, \<^verbatim>\<open>col[i]\<close>: past the end Python raises
  \<^verbatim>\<open>IndexError\<close>, an \<^verbatim>\<open>Exception\<close>.
\<close>

definition index_error :: py_exc where
  "index_error = OtherException ''tuple index out of range''"

definition col_get :: "row \<Rightarrow> nat \<Rightarrow> py_exc + pyval" where
  "col_get col i = (if i < length col then Inr (col ! i) else Inl index_error)"

text \<open>
  Line 64, the f-string
  \<^verbatim>\<open>f"  - {col[0]}: {col[1]} {'NOT NULL' if col[2] == 'NO' else 'NULL'}"\<close>,
  its three index expressions evaluated left to right.
\<close>

definition format_col :: "row \<Rightarrow> py_exc + string" where
  "format_col col =
     (case col_get col 0 of
        Inl e \<Rightarrow> Inl e
      | Inr name \<Rightarrow>
          (case col_get col 1 of
             Inl e \<Rightarrow> Inl e
           | Inr ty \<Rightarrow>
               (case col_get col 2 of
                  Inl e \<Rightarrow> Inl e
                | Inr flag \<Rightarrow>
                    Inr (''  - '' @ py_str name @ '': '' @ py_str ty @ '' '' @
                         (if flag = PyStr ''NO'' then ''NOT NULL'' else ''NULL'')))))"

text \<open>Lines 63-64, the loop \<^verbatim>\<open>for col in columns: print(...)\<close>.\<close>

fun print_columns :: "row list \<Rightarrow> unit prog" where
  "print_columns [] evs = (Inr (), evs)"
| "print_columns (col # cols) evs =
     (case format_col col of
        Inl e \<Rightarrow> (Inl e, evs)
      | Inr line \<Rightarrow> then_py (py_print line) (\<lambda>_. print_columns cols) evs)"

subsection \<open>The script\<close>

text \<open>Lines 13-73, the body of the \<^verbatim>\<open>try\<close> block.\<close>

definition try_body :: "env \<Rightarrow> unit prog" where
  "try_body en =
     then_py (lib_call en Connect) (\<lambda>_.
     then_py (py_print connected_msg) (\<lambda>_.
     then_py (lib_call en Cursor) (\<lambda>_.
     then_py (py_print creating_msg) (\<lambda>_.
     then_py (lib_call en (Execute create_table_sql)) (\<lambda>_.
     then_py (lib_call en Commit) (\<lambda>_.
     then_py (py_print created_msg) (\<lambda>_.
     then_py (lib_call en (Execute show_tables_sql)) (\<lambda>_.
     then_py (fetchall en) (\<lambda>result.
     then_py
       (if result \<noteq> [] then
          then_py (py_print (verification_msg (length result))) (\<lambda>_.
          then_py (lib_call en (Execute describe_sql)) (\<lambda>_.
          then_py (fetchall en) (\<lambda>columns.
          then_py (py_print structure_msg) (\<lambda>_.
          print_columns columns))))
        else
          then_py (py_print not_found_msg) (\<lambda>_.
          sys_exit 1)) (\<lambda>_.
     then_py (lib_call en CursorClose) (\<lambda>_.
     then_py (lib_call en ConnectionClose) (\<lambda>_.
     then_py (py_print done_msg) (\<lambda>_.
     sys_exit 0)))))))))))))"

text \<open>
  Lines 75-80, the handlers, tried in order: \<^verbatim>\<open>except mysql.connector.Error\<close>, then
  \<^verbatim>\<open>except Exception\<close>. An exception that matches neither class propagates.
\<close>

definition except_handlers :: "py_exc \<Rightarrow> unit prog" where
  "except_handlers e =
     (if is_mysql_error e then
        then_py (py_print (mysql_prefix @ exc_str e)) (\<lambda>_. sys_exit 1)
      else if is_exception e then
        then_py (py_print (generic_prefix @ exc_str e)) (\<lambda>_. sys_exit 1)
      else (\<lambda>evs. (Inl e, evs)))"

definition try_except :: "unit prog \<Rightarrow> unit prog" where
  "try_except body evs =
     (case body evs of
        (Inl e, evs') \<Rightarrow> except_handlers e evs'
      | (Inr v, evs') \<Rightarrow> (Inr v, evs'))"

text \<open>The module body: line 9, then the \<^verbatim>\<open>try\<close> statement.\<close>

definition script :: "env \<Rightarrow> unit prog" where
  "script en = then_py (py_print connecting_msg) (\<lambda>_. try_except (try_body en))"

text \<open>
  The interpreter's exit status: the argument of an uncaught \<^verbatim>\<open>SystemExit\<close>, 1 for
  any other uncaught exception, 0 when the module body runs to its end.
\<close>

fun exit_status :: "py_exc + unit \<Rightarrow> int" where
  "exit_status (Inl (SystemExit n)) = n"
| "exit_status (Inl (MySQLError m)) = 1"
| "exit_status (Inl (OtherException m)) = 1"
| "exit_status (Inr u) = 0"

definition exit_code :: "env \<Rightarrow> int" where
  "exit_code en = exit_status (fst (script en []))"

definition events :: "env \<Rightarrow> event list" where
  "events en = snd (script en [])"

definition stdout :: "env \<Rightarrow> string list" where
  "stdout en = printed_of (events en)"


section \<open>Observing a run\<close>

text \<open>
  The library calls of the source in the order of its lines (13, 24, 47, 48, 53, 54, 60, 61,
  69, 70).
\<close>

definition script_calls :: "call list" where
  "script_calls =
     [Connect, Cursor, Execute create_table_sql, Commit, Execute show_tables_sql, Fetchall,
      Execute describe_sql, Fetchall, CursorClose, ConnectionClose]"

text \<open>
  What the environment answers at each call site, when the calls before it have all returned:
  the history at a site is the list of the calls that precede it in the source.
\<close>

definition connect_reply :: "env \<Rightarrow> lib_error option" where
  "connect_reply en = outcome en [] Connect"

definition cursor_reply :: "env \<Rightarrow> lib_error option" where
  "cursor_reply en = outcome en [Connect] Cursor"

definition create_reply :: "env \<Rightarrow> lib_error option" where
  "create_reply en = outcome en [Connect, Cursor] (Execute create_table_sql)"

definition commit_reply :: "env \<Rightarrow> lib_error option" where
  "commit_reply en = outcome en [Connect, Cursor, Execute create_table_sql] Commit"

definition show_reply :: "env \<Rightarrow> lib_error option" where
  "show_reply en =
     outcome en [Connect, Cursor, Execute create_table_sql, Commit] (Execute show_tables_sql)"

definition show_rows :: "env \<Rightarrow> lib_error + row list" where
  "show_rows en =
     fetched en [Connect, Cursor, Execute create_table_sql, Commit, Execute show_tables_sql]"

definition describe_reply :: "env \<Rightarrow> lib_error option" where
  "describe_reply en =
     outcome en
       [Connect, Cursor, Execute create_table_sql, Commit, Execute show_tables_sql, Fetchall]
       (Execute describe_sql)"

definition describe_rows :: "env \<Rightarrow> lib_error + row list" where
  "describe_rows en =
     fetched en
       [Connect, Cursor, Execute create_table_sql, Commit, Execute show_tables_sql, Fetchall,
        Execute describe_sql]"

definition cursor_close_reply :: "env \<Rightarrow> lib_error option" where
  "cursor_close_reply en =
     outcome en
       [Connect, Cursor, Execute create_table_sql, Commit, Execute show_tables_sql, Fetchall,
        Execute describe_sql, Fetchall]
       CursorClose"

definition connection_close_reply :: "env \<Rightarrow> lib_error option" where
  "connection_close_reply en =
     outcome en
       [Connect, Cursor, Execute create_table_sql, Commit, Execute show_tables_sql, Fetchall,
        Execute describe_sql, Fetchall, CursorClose]
       ConnectionClose"

fun rows_of :: "lib_error + row list \<Rightarrow> row list" where
  "rows_of (Inl e) = []"
| "rows_of (Inr rows) = rows"

text \<open>
  A row of \<^verbatim>\<open>DESCRIBE\<close> has the fields Field, Type, Null, Key, Default, Extra; line 64
  reads the first three. For a row that has them, \<open>column_line\<close> is the line it prints.
\<close>

definition well_formed :: "row \<Rightarrow> bool" where
  "well_formed col \<longleftrightarrow> 3 \<le> length col"

definition column_line :: "row \<Rightarrow> string" where
  "column_line col =
     ''  - '' @ py_str (col ! 0) @ '': '' @ py_str (col ! 1) @ '' '' @
     (if col ! 2 = PyStr ''NO'' then ''NOT NULL'' else ''NULL'')"

text \<open>The line a handler prints for an error the library raised, and for an IndexError.\<close>

fun error_line :: "lib_error \<Rightarrow> string" where
  "error_line (DbError m) = mysql_prefix @ m"
| "error_line (OtherError m) = generic_prefix @ m"

definition index_error_line :: string where
  "index_error_line = generic_prefix @ ''tuple index out of range''"

text \<open>The errors the library raised in a run, in order.\<close>

fun raised :: "event list \<Rightarrow> lib_error list" where
  "raised [] = []"
| "raised (Called c (Some e) # es) = e # raised es"
| "raised (Fetched (Inl e) # es) = e # raised es"
| "raised (ev # es) = raised es"

text \<open>
  The catalog check passed the script's first five calls and returned \<open>res\<close>: lines 13 to 54
  ran without an exception.
\<close>

definition verified :: "env \<Rightarrow> row list \<Rightarrow> bool" where
  "verified en res \<longleftrightarrow>
     connect_reply en = None \<and> cursor_reply en = None \<and> create_reply en = None \<and>
     commit_reply en = None \<and> show_reply en = None \<and> show_rows en = Inr res"

text \<open>
  The steps up to the column listing: the connection (with its cursor), the DDL execution,
  the commit, and the two catalog queries with the listing printed from them.
\<close>

definition named_steps_succeed :: "env \<Rightarrow> bool" where
  "named_steps_succeed en \<longleftrightarrow>
     connect_reply en = None \<and> cursor_reply en = None \<and> create_reply en = None \<and>
     commit_reply en = None \<and> show_reply en = None \<and>
     (case show_rows en of Inl e \<Rightarrow> False | Inr res \<Rightarrow> res \<noteq> []) \<and>
     describe_reply en = None \<and>
     (case describe_rows en of Inl e \<Rightarrow> False | Inr cols \<Rightarrow> list_all well_formed cols)"

text \<open>Every statement of the \<^verbatim>\<open>try\<close> block completes: the above, and the two releases.\<close>

definition all_steps_succeed :: "env \<Rightarrow> bool" where
  "all_steps_succeed en \<longleftrightarrow>
     named_steps_succeed en \<and> cursor_close_reply en = None \<and> connection_close_reply en = None"


text \<open>The events of a run up to each call site, and of a complete run.\<close>

definition evs_connect :: "event list" where
  "evs_connect = [Printed connecting_msg]"

definition evs_cursor :: "event list" where
  "evs_cursor = evs_connect @ [Called Connect None, Printed connected_msg]"

definition evs_create :: "event list" where
  "evs_create = evs_cursor @ [Called Cursor None, Printed creating_msg]"

definition evs_commit :: "event list" where
  "evs_commit = evs_create @ [Called (Execute create_table_sql) None]"

definition evs_show :: "event list" where
  "evs_show = evs_commit @ [Called Commit None, Printed created_msg]"

definition evs_show_fetch :: "event list" where
  "evs_show_fetch = evs_show @ [Called (Execute show_tables_sql) None]"

definition evs_describe :: "row list \<Rightarrow> event list" where
  "evs_describe res =
     evs_show_fetch @ [Fetched (Inr res), Printed (verification_msg (length res))]"

definition evs_describe_fetch :: "row list \<Rightarrow> event list" where
  "evs_describe_fetch res = evs_describe res @ [Called (Execute describe_sql) None]"

definition evs_listing :: "row list \<Rightarrow> row list \<Rightarrow> event list" where
  "evs_listing res cols = evs_describe_fetch res @ [Fetched (Inr cols), Printed structure_msg]"

definition evs_cursor_close :: "row list \<Rightarrow> row list \<Rightarrow> event list" where
  "evs_cursor_close res cols =
     evs_listing res cols @ map (\<lambda>c. Printed (column_line c)) cols"

definition evs_connection_close :: "row list \<Rightarrow> row list \<Rightarrow> event list" where
  "evs_connection_close res cols = evs_cursor_close res cols @ [Called CursorClose None]"

definition evs_done :: "row list \<Rightarrow> row list \<Rightarrow> event list" where
  "evs_done res cols =
     evs_connection_close res cols @ [Called ConnectionClose None, Printed done_msg]"

definition success_events :: "row list \<Rightarrow> row list \<Rightarrow> event list" where
  "success_events res cols =
     [Printed connecting_msg,
      Called Connect None,
      Printed connected_msg,
      Called Cursor None,
      Printed creating_msg,
      Called (Execute create_table_sql) None,
      Called Commit None,
      Printed created_msg,
      Called (Execute show_tables_sql) None,
      Fetched (Inr res),
      Printed (verification_msg (length res)),
      Called (Execute describe_sql) None,
      Fetched (Inr cols),
      Printed structure_msg] @
     map (\<lambda>c. Printed (column_line c)) cols @
     [Called CursorClose None,
      Called ConnectionClose None,
      Printed done_msg]"

subsection \<open>Concrete environments\<close>

text \<open>An environment that answers by the position of the call in the run.\<close>

definition replying :: "(nat \<Rightarrow> lib_error option) \<Rightarrow> (nat \<Rightarrow> lib_error + row list) \<Rightarrow> env" where
  "replying f g = \<lparr>outcome = (\<lambda>h c. f (length h)), fetched = (\<lambda>h. g (length h))\<rparr>"

text \<open>
  The rows \<^verbatim>\<open>DESCRIBE access_logs\<close> returns for the table that lines 28-43 create, as a
  MySQL 8 server with default settings reports them.
\<close>

definition access_logs_rows :: "row list" where
  "access_logs_rows =
     [[PyStr ''id'', PyStr ''int'', PyStr ''NO'', PyStr ''PRI'', PyOther ''None'',
       PyStr ''auto_increment''],
      [PyStr ''user_id'', PyStr ''int'', PyStr ''NO'', PyStr ''MUL'', PyOther ''None'', PyStr []],
      [PyStr ''access_type'', PyStr ''varchar(50)'', PyStr ''NO'', PyStr ''MUL'', PyOther ''None'',
       PyStr []],
      [PyStr ''payment_amount_cents'', PyStr ''int'', PyStr ''YES'', PyStr [], PyStr ''0'',
       PyStr []],
      [PyStr ''ip_address'', PyStr ''varchar(45)'', PyStr ''YES'', PyStr [], PyOther ''None'',
       PyStr []],
      [PyStr ''user_agent'', PyStr ''text'', PyStr ''YES'', PyStr [], PyOther ''None'', PyStr []],
      [PyStr ''created_at'', PyStr ''timestamp'', PyStr ''YES'', PyStr ''MUL'',
       PyStr ''CURRENT_TIMESTAMP'', PyStr ''DEFAULT_GENERATED'']]"

definition seven_lines :: "string list" where
  "seven_lines =
     [''  - id: int NOT NULL'',
      ''  - user_id: int NOT NULL'',
      ''  - access_type: varchar(50) NOT NULL'',
      ''  - payment_amount_cents: int NULL'',
      ''  - ip_address: varchar(45) NULL'',
      ''  - user_agent: text NULL'',
      ''  - created_at: timestamp NULL'']"

text \<open>Every call returns; the catalog has the table, with the structure of the DDL.\<close>

definition env_fresh :: env where
  "env_fresh =
     replying (\<lambda>k. None)
       (\<lambda>k. if k = 5 then Inr [[PyStr ''access_logs'']] else Inr access_logs_rows)"

text \<open>
  The table was there before the run, with another structure:
  \<^verbatim>\<open>CREATE TABLE IF NOT EXISTS\<close> leaves it as it is.
\<close>

definition env_legacy :: env where
  "env_legacy =
     replying (\<lambda>k. None)
       (\<lambda>k. if k = 5 then Inr [[PyStr ''access_logs'']]
            else Inr [[PyStr ''log_id'', PyStr ''bigint'', PyStr ''NO'', PyStr ''PRI'',
                       PyOther ''None'', PyStr []]])"

text \<open>The server rejects the credentials: \<^verbatim>\<open>connect\<close> raises a database error.\<close>

definition access_denied :: string where
  "access_denied = ''1045 (28000): Access denied for user''"

definition env_bad_login :: env where
  "env_bad_login = replying (\<lambda>k. Some (DbError access_denied)) (\<lambda>k. Inr [])"

text \<open>No call raises, and the catalog query finds no table.\<close>

definition env_not_found :: env where
  "env_not_found = replying (\<lambda>k. None) (\<lambda>k. Inr [])"

text \<open>
  Everything up to the listing succeeds; then the connection is lost, and
  \<^verbatim>\<open>connection.close()\<close> (the tenth call) raises.
\<close>

definition lost_connection :: string where
  "lost_connection = ''2013 (HY000): Lost connection to MySQL server during query''"

definition env_close_fails :: env where
  "env_close_fails =
     replying (\<lambda>k. if k = 9 then Some (DbError lost_connection) else None)
       (\<lambda>k. if k = 5 then Inr [[PyStr ''access_logs'']] else Inr access_logs_rows)"

text \<open>The cursor cannot be created, for a reason that is no database error.\<close>

definition env_no_cursor :: env where
  "env_no_cursor =
     replying (\<lambda>k. if k = 1 then Some (OtherError ''out of memory'') else None) (\<lambda>k. Inr [])"

section \<open>The database server\<close>

text \<open>
  Modelled from the spec: the database server, which is not part of the repository. Its
  persistent state is the catalog, with the structure (the fields \<^verbatim>\<open>DESCRIBE\<close> reports)
  and the data of every table, and whether it accepts the script's credentials; its session
  state is the result set waiting to be fetched.
\<close>

record column =
  col_field :: string
  col_type :: string
  col_null :: bool
  col_key :: string
  col_default :: "string option"
  col_extra :: string

record table =
  tbl_columns :: "column list"
  tbl_rows :: "row list"

record server =
  catalog :: "(string \<times> table) list"
  accepts_login :: bool
  result_set :: "row list option"

type_synonym builder = "string \<Rightarrow> (string \<times> table) list \<Rightarrow> lib_error + table"

text \<open>
  The statements the server tells apart, by their leading words (at most the first six are
  read): a conditional and an unconditional \<^verbatim>\<open>CREATE TABLE\<close>, and the two catalog
  queries.
\<close>

definition is_space :: "char \<Rightarrow> bool" where
  "is_space c \<longleftrightarrow> c = CHR '' '' \<or> c = CHR ''\<newline>'' \<or> c = CHR 0x09 \<or> c = CHR 0x0D"

definition next_word :: "string \<Rightarrow> string \<times> string" where
  "next_word s =
     (let t = dropWhile is_space s
      in (takeWhile (\<lambda>c. \<not> is_space c) t, dropWhile (\<lambda>c. \<not> is_space c) t))"

primrec sql_words :: "nat \<Rightarrow> string \<Rightarrow> string list" where
  "sql_words 0 s = []"
| "sql_words (Suc n) s =
     (case next_word s of (w, r) \<Rightarrow> if w = [] then [] else w # sql_words n r)"

datatype stmt =
    CreateIfNotExists string
  | CreateTable string
  | ShowTablesLike string
  | Describe string

definition unquote :: "string \<Rightarrow> string option" where
  "unquote s =
     (if 2 \<le> length s \<and> hd s = CHR 0x27 \<and> last s = CHR 0x27 then Some (butlast (tl s))
      else None)"

definition parse_stmt :: "string \<Rightarrow> stmt option" where
  "parse_stmt sql =
     (let ws = sql_words 6 sql in
      if take 5 ws = [''CREATE'', ''TABLE'', ''IF'', ''NOT'', ''EXISTS''] \<and> length ws = 6
        then Some (CreateIfNotExists (ws ! 5))
      else if take 2 ws = [''CREATE'', ''TABLE''] \<and> 2 < length ws
        then Some (CreateTable (ws ! 2))
      else if take 3 ws = [''SHOW'', ''TABLES'', ''LIKE''] \<and> length ws = 4
        then map_option ShowTablesLike (unquote (ws ! 3))
      else if take 1 ws = [''DESCRIBE''] \<and> length ws = 2
        then Some (Describe (ws ! 1))
      else None)"

text \<open>
  The \<^verbatim>\<open>LIKE\<close> of \<^verbatim>\<open>SHOW TABLES\<close>: \<^verbatim>\<open>%\<close> stands for any text and
  \<^verbatim>\<open>_\<close> for any one character.
\<close>

fun like_match :: "string \<Rightarrow> string \<Rightarrow> bool" where
  "like_match [] [] = True"
| "like_match [] (c # cs) = False"
| "like_match (p # ps) [] = (p = CHR ''%'' \<and> like_match ps [])"
| "like_match (p # ps) (c # cs) =
     (if p = CHR ''%'' then like_match ps (c # cs) \<or> like_match (p # ps) cs
      else (p = CHR ''_'' \<or> p = c) \<and> like_match ps cs)"

definition describe_row :: "column \<Rightarrow> row" where
  "describe_row c =
     [PyStr (col_field c), PyStr (col_type c), PyStr (if col_null c then ''YES'' else ''NO''),
      PyStr (col_key c),
      (case col_default c of None \<Rightarrow> PyOther ''None'' | Some d \<Rightarrow> PyStr d),
      PyStr (col_extra c)]"

text \<open>
  Modelled from the spec: what the server does with a statement. Section 4.1: ``Because the
  statement uses a conditional existence check, re-running it is a no-op if the table
  already exists, and creates it otherwise''; the catalog queries confirm presence and
  enumerate the columns. How the server builds a table that is not there yet, and when it
  refuses to (a missing \<^verbatim>\<open>pump_users\<close>, section 8), is the parameter \<open>b\<close>.
\<close>

definition srv_execute :: "builder \<Rightarrow> server \<Rightarrow> string \<Rightarrow> (lib_error + row list) \<times> server" where
  "srv_execute b s sql =
     (case parse_stmt sql of
        None \<Rightarrow> (Inl (DbError ''1064 (42000): You have an error in your SQL syntax''), s)
      | Some (CreateIfNotExists n) \<Rightarrow>
          (case map_of (catalog s) n of
             Some t \<Rightarrow> (Inr [], s\<lparr>result_set := None\<rparr>)
           | None \<Rightarrow>
               (case b sql (catalog s) of
                  Inl e \<Rightarrow> (Inl e, s)
                | Inr t \<Rightarrow> (Inr [], s\<lparr>catalog := catalog s @ [(n, t)], result_set := None\<rparr>)))
      | Some (CreateTable n) \<Rightarrow>
          (case map_of (catalog s) n of
             Some t \<Rightarrow> (Inl (DbError ''1050 (42S01): Table already exists''), s)
           | None \<Rightarrow>
               (case b sql (catalog s) of
                  Inl e \<Rightarrow> (Inl e, s)
                | Inr t \<Rightarrow> (Inr [], s\<lparr>catalog := catalog s @ [(n, t)], result_set := None\<rparr>)))
      | Some (ShowTablesLike p) \<Rightarrow>
          (Inr [], s\<lparr>result_set := Some (map (\<lambda>nt. [PyStr (fst nt)])
                                         (filter (\<lambda>nt. like_match p (fst nt)) (catalog s)))\<rparr>)
      | Some (Describe n) \<Rightarrow>
          (case map_of (catalog s) n of
             None \<Rightarrow> (Inl (DbError ''1146 (42S02): Table does not exist''), s)
           | Some t \<Rightarrow> (Inr [], s\<lparr>result_set := Some (map describe_row (tbl_columns t))\<rparr>)))"

text \<open>Modelled from the spec: the server's answer to each call of the client library.\<close>

fun server_step :: "builder \<Rightarrow> server \<Rightarrow> call \<Rightarrow> (lib_error + row list) \<times> server" where
  "server_step b s Connect =
     (if accepts_login s then (Inr [], s\<lparr>result_set := None\<rparr>)
      else (Inl (DbError ''1045 (28000): Access denied for user''), s))"
| "server_step b s Cursor = (Inr [], s)"
| "server_step b s (Execute sql) = srv_execute b s sql"
| "server_step b s Commit = (Inr [], s)"
| "server_step b s Fetchall =
     (case result_set s of
        None \<Rightarrow> (Inl (DbError ''No result set to fetch from''), s)
      | Some rows \<Rightarrow> (Inr rows, s\<lparr>result_set := None\<rparr>))"
| "server_step b s CursorClose = (Inr [], s\<lparr>result_set := None\<rparr>)"
| "server_step b s ConnectionClose = (Inr [], s\<lparr>result_set := None\<rparr>)"

text \<open>
  The server after a list of calls, the environment a server is for the script, and the
  server after the script has run against it: the calls it has received are those the run
  made.
\<close>

definition server_after :: "builder \<Rightarrow> server \<Rightarrow> call list \<Rightarrow> server" where
  "server_after b s cs = fold (\<lambda>c s'. snd (server_step b s' c)) cs s"

definition env_of_server :: "builder \<Rightarrow> server \<Rightarrow> env" where
  "env_of_server b s =
     \<lparr>outcome = (\<lambda>h c. case fst (server_step b (server_after b s h) c) of
                          Inl e \<Rightarrow> Some e | Inr r \<Rightarrow> None),
      fetched = (\<lambda>h. fst (server_step b (server_after b s h) Fetchall))\<rparr>"

definition after_run :: "builder \<Rightarrow> server \<Rightarrow> server" where
  "after_run b s = server_after b s (calls_of (events (env_of_server b s)))"

text \<open>
  A server for the script's DDL: it has \<^verbatim>\<open>pump_users\<close>, accepts the login, and builds
  \<^verbatim>\<open>access_logs\<close> with the seven columns of lines 29-35.
\<close>

definition access_logs_columns :: "column list" where
  "access_logs_columns =
     [\<lparr>col_field = ''id'', col_type = ''int'', col_null = False, col_key = ''PRI'',
       col_default = None, col_extra = ''auto_increment''\<rparr>,
      \<lparr>col_field = ''user_id'', col_type = ''int'', col_null = False, col_key = ''MUL'',
       col_default = None, col_extra = []\<rparr>,
      \<lparr>col_field = ''access_type'', col_type = ''varchar(50)'', col_null = False,
       col_key = ''MUL'', col_default = None, col_extra = []\<rparr>,
      \<lparr>col_field = ''payment_amount_cents'', col_type = ''int'', col_null = True, col_key = [],
       col_default = Some ''0'', col_extra = []\<rparr>,
      \<lparr>col_field = ''ip_address'', col_type = ''varchar(45)'', col_null = True, col_key = [],
       col_default = None, col_extra = []\<rparr>,
      \<lparr>col_field = ''user_agent'', col_type = ''text'', col_null = True, col_key = [],
       col_default = None, col_extra = []\<rparr>,
      \<lparr>col_field = ''created_at'', col_type = ''timestamp'', col_null = True, col_key = ''MUL'',
       col_default = Some ''CURRENT_TIMESTAMP'', col_extra = ''DEFAULT_GENERATED''\<rparr>]"

definition mysql_builder :: builder where
  "mysql_builder sql cat =
     (if map_of cat ''pump_users'' = None
      then Inl (DbError ''1824 (HY000): Failed to open the referenced table'')
      else Inr \<lparr>tbl_columns = access_logs_columns, tbl_rows = []\<rparr>)"

definition srv_initial :: server where
  "srv_initial =
     \<lparr>catalog =
        [(''pump_users'',
          \<lparr>tbl_columns =
             [\<lparr>col_field = ''id'', col_type = ''int'', col_null = False, col_key = ''PRI'',
               col_default = None, col_extra = ''auto_increment''\<rparr>],
           tbl_rows = []\<rparr>)],
      accepts_login = True,
      result_set = None\<rparr>"

section \<open>The paths through the script\<close>

lemma then_py_print [simp]: "then_py (py_print s) f evs = f () (evs @ [Printed s])"
  by (simp add: then_py_def py_print_def)

lemmas reply_defs = connect_reply_def cursor_reply_def create_reply_def commit_reply_def
  show_reply_def show_rows_def describe_reply_def describe_rows_def cursor_close_reply_def
  connection_close_reply_def

lemma format_col_wf: "well_formed col \<Longrightarrow> format_col col = Inr (column_line col)"
proof -
  assume "well_formed col"
  then obtain a b c rest where "col = a # b # c # rest"
    by (auto simp add: well_formed_def numeral_3_eq_3 Suc_le_length_iff)
  then show ?thesis
    by (simp add: format_col_def col_get_def column_line_def)
qed

lemma format_col_short: "\<not> well_formed col \<Longrightarrow> format_col col = Inl index_error"
  by (simp add: format_col_def col_get_def well_formed_def split: sum.splits)

lemma print_columns_ok:
  "list_all well_formed cols \<Longrightarrow> print_columns cols evs = (Inr (), evs @ map (\<lambda>c. Printed (column_line c)) cols)"
  by (induction cols arbitrary: evs) (simp_all add: format_col_wf)

lemma print_columns_bad:
  "\<not> list_all well_formed cols \<Longrightarrow>
   print_columns cols evs = (Inl index_error, evs @ map (\<lambda>c. Printed (column_line c)) (takeWhile well_formed cols))"
proof (induction cols arbitrary: evs)
  case Nil then show ?case by simp
next
  case (Cons c cols)
  show ?case
  proof (cases "well_formed c")
    case True
    with Cons show ?thesis by (simp add: format_col_wf)
  next
    case False
    then show ?thesis by (simp add: format_col_short)
  qed
qed

lemma calls_of_append [simp]: "calls_of (xs @ ys) = calls_of xs @ calls_of ys"
  by (induction xs rule: calls_of.induct) simp_all

lemma calls_of_map_Printed [simp]: "calls_of (map (\<lambda>c. Printed (f c)) cols) = []"
  by (induction cols) simp_all

lemma then_py_lib_call:
  "then_py (lib_call en c) f evs =
     (case outcome en (calls_of evs) c of
        None \<Rightarrow> f () (evs @ [Called c None])
      | Some e \<Rightarrow> (Inl (raise_of e), evs @ [Called c (Some e)]))"
  by (simp add: then_py_def lib_call_def split: option.splits)

lemma then_py_fetchall:
  "then_py (fetchall en) f evs =
     (case fetched en (calls_of evs) of
        Inl e \<Rightarrow> (Inl (raise_of e), evs @ [Fetched (Inl e)])
      | Inr rows \<Rightarrow> f rows (evs @ [Fetched (Inr rows)]))"
  by (simp add: then_py_def fetchall_def split: sum.splits)

lemma then_py_sys_exit: "then_py (sys_exit n) f evs = (Inl (SystemExit n), evs)"
  by (simp add: then_py_def sys_exit_def)

lemma then_py_assoc: "then_py (then_py m f) g = then_py m (\<lambda>x. then_py (f x) g)"
  by (rule ext) (simp add: then_py_def split: prod.splits sum.splits)

lemma then_py_if: "then_py (if b then m else m') g = (if b then then_py m g else then_py m' g)"
  by simp

lemma then_py_print_columns:
  "then_py (print_columns cols) f evs =
     (if list_all well_formed cols then f () (evs @ map (\<lambda>c. Printed (column_line c)) cols)
      else (Inl index_error, evs @ map (\<lambda>c. Printed (column_line c)) (takeWhile well_formed cols)))"
  by (simp add: then_py_def print_columns_ok print_columns_bad)

lemmas py_simps = then_py_lib_call then_py_fetchall then_py_sys_exit then_py_assoc then_py_if
  then_py_print_columns

lemmas evs_defs = evs_connect_def evs_cursor_def evs_create_def evs_commit_def evs_show_def
  evs_show_fetch_def evs_describe_def evs_describe_fetch_def evs_listing_def
  evs_cursor_close_def evs_connection_close_def evs_done_def

lemma script_start: "script en [] = try_except (try_body en) evs_connect"
  by (simp add: script_def evs_connect_def)

lemma handle_lib_error:
  "except_handlers (raise_of e) evs = (Inl (SystemExit 1), evs @ [Printed (error_line e)])"
  by (cases e) (simp_all add: except_handlers_def sys_exit_def)

lemma handle_index_error:
  "except_handlers index_error evs = (Inl (SystemExit 1), evs @ [Printed index_error_line])"
  by (simp add: except_handlers_def sys_exit_def index_error_def index_error_line_def)

lemma handle_system_exit:
  "except_handlers (SystemExit n) evs = (Inl (SystemExit n), evs)"
  by (simp add: except_handlers_def)

lemmas body_simps = try_body_def py_simps reply_defs evs_defs

lemma body_connect_raises:
  "connect_reply en = Some e \<Longrightarrow>
   try_body en evs_connect = (Inl (raise_of e), evs_connect @ [Called Connect (Some e)])"
  by (simp add: body_simps)

lemma body_cursor_raises:
  "connect_reply en = None \<Longrightarrow> cursor_reply en = Some e \<Longrightarrow>
   try_body en evs_connect = (Inl (raise_of e), evs_cursor @ [Called Cursor (Some e)])"
  by (simp add: body_simps)

lemma body_create_raises:
  "connect_reply en = None \<Longrightarrow> cursor_reply en = None \<Longrightarrow> create_reply en = Some e \<Longrightarrow>
   try_body en evs_connect = (Inl (raise_of e), evs_create @ [Called (Execute create_table_sql) (Some e)])"
  by (simp add: body_simps)

lemma body_commit_raises:
  "connect_reply en = None \<Longrightarrow> cursor_reply en = None \<Longrightarrow> create_reply en = None \<Longrightarrow>
   commit_reply en = Some e \<Longrightarrow>
   try_body en evs_connect = (Inl (raise_of e), evs_commit @ [Called Commit (Some e)])"
  by (simp add: body_simps)

lemma body_show_raises:
  "connect_reply en = None \<Longrightarrow> cursor_reply en = None \<Longrightarrow> create_reply en = None \<Longrightarrow>
   commit_reply en = None \<Longrightarrow> show_reply en = Some e \<Longrightarrow>
   try_body en evs_connect = (Inl (raise_of e), evs_show @ [Called (Execute show_tables_sql) (Some e)])"
  by (simp add: body_simps)

lemma body_show_fetch_raises:
  "connect_reply en = None \<Longrightarrow> cursor_reply en = None \<Longrightarrow> create_reply en = None \<Longrightarrow>
   commit_reply en = None \<Longrightarrow> show_reply en = None \<Longrightarrow> show_rows en = Inl e \<Longrightarrow>
   try_body en evs_connect = (Inl (raise_of e), evs_show_fetch @ [Fetched (Inl e)])"
  by (simp add: body_simps)

lemma body_not_found:
  "verified en [] \<Longrightarrow>
   try_body en evs_connect = (Inl (SystemExit 1), evs_show_fetch @ [Fetched (Inr []), Printed not_found_msg])"
  by (simp add: body_simps verified_def)

lemma body_describe_raises:
  "verified en res \<Longrightarrow> res \<noteq> [] \<Longrightarrow> describe_reply en = Some e \<Longrightarrow>
   try_body en evs_connect = (Inl (raise_of e), evs_describe res @ [Called (Execute describe_sql) (Some e)])"
  by (simp add: body_simps verified_def)

lemma body_describe_fetch_raises:
  "verified en res \<Longrightarrow> res \<noteq> [] \<Longrightarrow> describe_reply en = None \<Longrightarrow> describe_rows en = Inl e \<Longrightarrow>
   try_body en evs_connect = (Inl (raise_of e), evs_describe_fetch res @ [Fetched (Inl e)])"
  by (simp add: body_simps verified_def)

lemma body_index_error:
  "verified en res \<Longrightarrow> res \<noteq> [] \<Longrightarrow> describe_reply en = None \<Longrightarrow> describe_rows en = Inr cols \<Longrightarrow>
   \<not> list_all well_formed cols \<Longrightarrow>
   try_body en evs_connect =
     (Inl index_error, evs_listing res cols @ map (\<lambda>c. Printed (column_line c)) (takeWhile well_formed cols))"
  by (simp add: body_simps verified_def)

lemma body_cursor_close_raises:
  "verified en res \<Longrightarrow> res \<noteq> [] \<Longrightarrow> describe_reply en = None \<Longrightarrow> describe_rows en = Inr cols \<Longrightarrow>
   list_all well_formed cols \<Longrightarrow> cursor_close_reply en = Some e \<Longrightarrow>
   try_body en evs_connect = (Inl (raise_of e), evs_cursor_close res cols @ [Called CursorClose (Some e)])"
  by (simp add: body_simps verified_def)

lemma body_connection_close_raises:
  "verified en res \<Longrightarrow> res \<noteq> [] \<Longrightarrow> describe_reply en = None \<Longrightarrow> describe_rows en = Inr cols \<Longrightarrow>
   list_all well_formed cols \<Longrightarrow> cursor_close_reply en = None \<Longrightarrow> connection_close_reply en = Some e \<Longrightarrow>
   try_body en evs_connect = (Inl (raise_of e), evs_connection_close res cols @ [Called ConnectionClose (Some e)])"
  by (simp add: body_simps verified_def)

lemma body_success:
  "verified en res \<Longrightarrow> res \<noteq> [] \<Longrightarrow> describe_reply en = None \<Longrightarrow> describe_rows en = Inr cols \<Longrightarrow>
   list_all well_formed cols \<Longrightarrow> cursor_close_reply en = None \<Longrightarrow> connection_close_reply en = None \<Longrightarrow>
   try_body en evs_connect = (Inl (SystemExit 0), evs_done res cols)"
  by (simp add: body_simps verified_def sys_exit_def)

lemma run_of_body_raise:
  "try_body en evs_connect = (Inl (raise_of e), evs) \<Longrightarrow>
   exit_code en = 1 \<and> events en = evs @ [Printed (error_line e)]"
  by (simp add: exit_code_def events_def script_start try_except_def handle_lib_error)

lemma run_of_body_exit:
  "try_body en evs_connect = (Inl (SystemExit n), evs) \<Longrightarrow> exit_code en = n \<and> events en = evs"
  by (simp add: exit_code_def events_def script_start try_except_def handle_system_exit)

lemma run_of_body_index_error:
  "try_body en evs_connect = (Inl index_error, evs) \<Longrightarrow>
   exit_code en = 1 \<and> events en = evs @ [Printed index_error_line]"
  by (simp add: exit_code_def events_def script_start try_except_def handle_index_error)

lemma run_cases [case_names connect_raises cursor_raises create_raises commit_raises show_raises
    show_fetch_raises not_found describe_raises describe_fetch_raises index_error
    cursor_close_raises connection_close_raises success]:
  obtains
    e where "connect_reply en = Some e" "exit_code en = 1"
      "events en = evs_connect @ [Called Connect (Some e), Printed (error_line e)]"
  | e where "connect_reply en = None" "cursor_reply en = Some e" "exit_code en = 1"
      "events en = evs_cursor @ [Called Cursor (Some e), Printed (error_line e)]"
  | e where "connect_reply en = None" "cursor_reply en = None" "create_reply en = Some e"
      "exit_code en = 1"
      "events en = evs_create @ [Called (Execute create_table_sql) (Some e), Printed (error_line e)]"
  | e where "connect_reply en = None" "cursor_reply en = None" "create_reply en = None"
      "commit_reply en = Some e" "exit_code en = 1"
      "events en = evs_commit @ [Called Commit (Some e), Printed (error_line e)]"
  | e where "connect_reply en = None" "cursor_reply en = None" "create_reply en = None"
      "commit_reply en = None" "show_reply en = Some e" "exit_code en = 1"
      "events en = evs_show @ [Called (Execute show_tables_sql) (Some e), Printed (error_line e)]"
  | e where "connect_reply en = None" "cursor_reply en = None" "create_reply en = None"
      "commit_reply en = None" "show_reply en = None" "show_rows en = Inl e" "exit_code en = 1"
      "events en = evs_show_fetch @ [Fetched (Inl e), Printed (error_line e)]"
  | "verified en []" "exit_code en = 1"
      "events en = evs_show_fetch @ [Fetched (Inr []), Printed not_found_msg]"
  | res e where "verified en res" "res \<noteq> []" "describe_reply en = Some e" "exit_code en = 1"
      "events en = evs_describe res @ [Called (Execute describe_sql) (Some e), Printed (error_line e)]"
  | res e where "verified en res" "res \<noteq> []" "describe_reply en = None"
      "describe_rows en = Inl e" "exit_code en = 1"
      "events en = evs_describe_fetch res @ [Fetched (Inl e), Printed (error_line e)]"
  | res cols where "verified en res" "res \<noteq> []" "describe_reply en = None"
      "describe_rows en = Inr cols" "\<not> list_all well_formed cols" "exit_code en = 1"
      "events en = evs_listing res cols @
         map (\<lambda>c. Printed (column_line c)) (takeWhile well_formed cols) @ [Printed index_error_line]"
  | res cols e where "verified en res" "res \<noteq> []" "describe_reply en = None"
      "describe_rows en = Inr cols" "list_all well_formed cols" "cursor_close_reply en = Some e"
      "exit_code en = 1"
      "events en = evs_cursor_close res cols @ [Called CursorClose (Some e), Printed (error_line e)]"
  | res cols e where "verified en res" "res \<noteq> []" "describe_reply en = None"
      "describe_rows en = Inr cols" "list_all well_formed cols" "cursor_close_reply en = None"
      "connection_close_reply en = Some e" "exit_code en = 1"
      "events en = evs_connection_close res cols @ [Called ConnectionClose (Some e), Printed (error_line e)]"
  | res cols where "verified en res" "res \<noteq> []" "describe_reply en = None"
      "describe_rows en = Inr cols" "list_all well_formed cols" "cursor_close_reply en = None"
      "connection_close_reply en = None" "exit_code en = 0" "events en = evs_done res cols"
proof (cases "connect_reply en")
  case (Some e)
  with run_of_body_raise [OF body_connect_raises [OF Some]] that(1) show thesis by simp
next
  case c1: None
  show thesis
  proof (cases "cursor_reply en")
    case (Some e)
    with run_of_body_raise [OF body_cursor_raises [OF c1 Some]] c1 that(2) show thesis by simp
  next
    case c2: None
    show thesis
    proof (cases "create_reply en")
      case (Some e)
      with run_of_body_raise [OF body_create_raises [OF c1 c2 Some]] c1 c2 that(3)
      show thesis by simp
    next
      case c3: None
      show thesis
      proof (cases "commit_reply en")
        case (Some e)
        with run_of_body_raise [OF body_commit_raises [OF c1 c2 c3 Some]] c1 c2 c3 that(4)
        show thesis by simp
      next
        case c4: None
        show thesis
        proof (cases "show_reply en")
          case (Some e)
          with run_of_body_raise [OF body_show_raises [OF c1 c2 c3 c4 Some]] c1 c2 c3 c4 that(5)
          show thesis by simp
        next
          case c5: None
          show thesis
          proof (cases "show_rows en")
            case (Inl e)
            with run_of_body_raise [OF body_show_fetch_raises [OF c1 c2 c3 c4 c5 Inl]]
              c1 c2 c3 c4 c5 that(6)
            show thesis by simp
          next
            case (Inr res)
            with c1 c2 c3 c4 c5 have v: "verified en res" by (simp add: verified_def)
            show thesis
            proof (cases "res = []")
              case True
              with v run_of_body_exit [OF body_not_found] that(7) show thesis by simp
            next
              case ne: False
              show thesis
              proof (cases "describe_reply en")
                case (Some e)
                with run_of_body_raise [OF body_describe_raises [OF v ne Some]] v ne that(8)
                show thesis by simp
              next
                case d1: None
                show thesis
                proof (cases "describe_rows en")
                  case (Inl e)
                  with run_of_body_raise [OF body_describe_fetch_raises [OF v ne d1 Inl]]
                    v ne d1 that(9)
                  show thesis by simp
                next
                  case d2: (Inr cols)
                  show thesis
                  proof (cases "list_all well_formed cols")
                    case False
                    with run_of_body_index_error [OF body_index_error [OF v ne d1 d2 False]]
                      v ne d1 d2 that(10)
                    show thesis by simp
                  next
                    case wf: True
                    show thesis
                    proof (cases "cursor_close_reply en")
                      case (Some e)
                      with run_of_body_raise [OF body_cursor_close_raises [OF v ne d1 d2 wf Some]]
                        v ne d1 d2 wf that(11)
                      show thesis by simp
                    next
                      case r1: None
                      show thesis
                      proof (cases "connection_close_reply en")
                        case (Some e)
                        with run_of_body_raise
                          [OF body_connection_close_raises [OF v ne d1 d2 wf r1 Some]]
                          v ne d1 d2 wf r1 that(12)
                        show thesis by simp
                      next
                        case r2: None
                        with run_of_body_exit [OF body_success [OF v ne d1 d2 wf r1 r2]]
                          v ne d1 d2 wf r1 that(13)
                        show thesis by simp
                      qed
                    qed
                  qed
                qed
              qed
            qed
          qed
        qed
      qed
    qed
  qed
qed

section \<open>Properties of the script\<close>

lemma evs_done_eq: "evs_done res cols = success_events res cols"
  by (simp add: evs_defs success_events_def)

lemmas env_defs = replying_def env_fresh_def env_legacy_def env_bad_login_def env_not_found_def
  env_close_fails_def env_no_cursor_def

lemma well_formed_access_logs_rows: "list_all well_formed access_logs_rows"
  by (simp add: access_logs_rows_def well_formed_def)

lemma lines_access_logs_rows: "map column_line access_logs_rows = seven_lines"
  by (simp add: access_logs_rows_def column_line_def seven_lines_def)

lemma fresh_succeeds: "all_steps_succeed env_fresh"
  by (simp add: all_steps_succeed_def named_steps_succeed_def reply_defs env_defs
      well_formed_access_logs_rows)

lemma close_fails_named: "named_steps_succeed env_close_fails"
  by (simp add: named_steps_succeed_def reply_defs env_defs well_formed_access_logs_rows)


lemma printed_of_append [simp]: "printed_of (xs @ ys) = printed_of xs @ printed_of ys"
  by (induction xs rule: printed_of.induct) simp_all

lemma printed_of_map_Printed [simp]: "printed_of (map (\<lambda>c. Printed (f c)) cols) = map f cols"
  by (induction cols) simp_all

lemma raised_append [simp]: "raised (xs @ ys) = raised xs @ raised ys"
  by (induction xs rule: raised.induct) simp_all

lemma raised_map_Printed [simp]: "raised (map (\<lambda>c. Printed (f c)) cols) = []"
  by (induction cols) simp_all

lemma exit_code_eq: "exit_code en = (if all_steps_succeed en then 0 else 1)"
  by (cases en rule: run_cases)
     (simp_all add: all_steps_succeed_def named_steps_succeed_def verified_def)

lemma run_not_found:
  "verified en [] \<Longrightarrow>
   exit_code en = 1 \<and> events en = evs_show_fetch @ [Fetched (Inr []), Printed not_found_msg]"
  by (rule run_of_body_exit [OF body_not_found])

lemma run_success:
  assumes "exit_code en = 0"
  shows "events en = success_events (rows_of (show_rows en)) (rows_of (describe_rows en))"
  using assms by (cases en rule: run_cases) (simp_all add: verified_def evs_done_eq)

lemma calls_prefix: "prefix (calls_of (events en)) script_calls"
  by (cases en rule: run_cases) (simp_all add: evs_defs script_calls_def)

lemma calls_success: "exit_code en = 0 \<Longrightarrow> calls_of (events en) = script_calls"
  by (cases en rule: run_cases) (simp_all add: evs_defs script_calls_def)

lemma run_listing:
  assumes "verified en res" "res \<noteq> []" "describe_reply en = None"
    "describe_rows en = Inr cols" "list_all well_formed cols"
  shows "prefix (evs_cursor_close res cols) (events en)"
  using assms
  by (cases en rule: run_cases)
     (auto simp add: verified_def evs_done_def evs_connection_close_def)




subsection \<open>Exit codes\<close>

text \<open>
  Claim C1, as amended. Every run ends with exit code 0 or 1. The code is 0 exactly when every
  statement of the \<^verbatim>\<open>try\<close> block completes: the connection and its cursor, the DDL
  execution, the commit, the catalog check with a non-empty result, the column listing, and
  the release of the cursor and of the connection. It is 1 in every other case: a database
  error, any other exception, or a failed verification.
\<close>

theorem exit_code_characterised:
  "(exit_code en = 0 \<or> exit_code en = 1) \<and> (exit_code en = 0 \<longleftrightarrow> all_steps_succeed en)"
  by (simp add: exit_code_eq)

theorem exit_code_characterised_witness:
  "all_steps_succeed env_fresh \<and> exit_code env_fresh = 0 \<and>
   \<not> all_steps_succeed env_not_found \<and> exit_code env_not_found = 1"
proof -
  have "\<not> all_steps_succeed env_not_found"
    by (simp add: all_steps_succeed_def named_steps_succeed_def reply_defs env_defs)
  with fresh_succeeds exit_code_characterised [of env_fresh]
    exit_code_characterised [of env_not_found]
  show ?thesis by blast
qed

text \<open>
  Claim C1 as stated fails: with the connection, the DDL execution, the commit and the
  verification (listing included) all successful, the run still ends with code 1 when
  \<^verbatim>\<open>connection.close()\<close> on line 70 raises.
\<close>

theorem exit_zero_needs_release_counterexample:
  "named_steps_succeed env_close_fails \<and> exit_code env_close_fails = 1"
proof -
  have "\<not> all_steps_succeed env_close_fails"
    by (simp add: all_steps_succeed_def reply_defs env_defs)
  with exit_code_eq [of env_close_fails] close_fails_named show ?thesis by simp
qed

text \<open>
  Claim C2. When lines 13 to 54 raise nothing and \<^verbatim>\<open>SHOW TABLES LIKE 'access_logs'\<close>
  returns no row, the script prints the error of line 66 (the last thing it prints) and
  exits with status 1.
\<close>

theorem empty_catalog_result_exits_1:
  "verified en [] \<Longrightarrow>
   exit_code en = 1 \<and>
   stdout en = [connecting_msg, connected_msg, creating_msg, created_msg, not_found_msg] \<and>
   last (events en) = Printed not_found_msg"
  using run_not_found [of en] by (simp add: stdout_def evs_defs)

lemma not_found_verified: "verified env_not_found []"
  by (simp add: verified_def reply_defs env_defs)

theorem empty_catalog_result_exits_1_witness:
  "verified env_not_found [] \<and> exit_code env_not_found = 1 \<and>
   stdout env_not_found = [connecting_msg, connected_msg, creating_msg, created_msg, not_found_msg] \<and>
   last (events env_not_found) = Printed not_found_msg"
  using empty_catalog_result_exits_1 [OF not_found_verified] not_found_verified by simp

subsection \<open>The order of the steps\<close>





lemma prefixes_differ:
  "\<not> prefix generic_prefix (mysql_prefix @ m)" "\<not> prefix mysql_prefix (generic_prefix @ m)"
  by (simp_all add: generic_prefix_def mysql_prefix_def)

lemma run_raised:
  assumes "e \<in> set (raised (events en))"
  shows "exit_code en = 1 \<and> last (events en) = Printed (error_line e)"
  using assms by (cases en rule: run_cases) (auto simp add: evs_defs)

lemma run_connect_raises:
  assumes "connect_reply en = Some e"
  shows "exit_code en = 1 \<and>
         events en = [Printed connecting_msg, Called Connect (Some e), Printed (error_line e)]"
  using run_of_body_raise [OF body_connect_raises [OF assms]] by (simp add: evs_defs)

lemma last_stdout: "events en = evs @ [Printed s] \<Longrightarrow> last (stdout en) = s"
  by (simp add: stdout_def)

subsection \<open>The two handlers\<close>

text \<open>
  Claim C5. An instance of \<^verbatim>\<open>mysql.connector.Error\<close> is printed after the database
  prefix, any other exception after the generic prefix, and neither line can be read as the
  other; in both cases the process exits with code 1. A run in which the library raised a
  database error ends with the database line, one in which it raised something else with
  the generic line. Rejected credentials, which the client library reports as a database
  error from \<^verbatim>\<open>connect\<close>, give the database line right after the first print.
\<close>

theorem error_classes:
  "except_handlers (MySQLError m) evs = (Inl (SystemExit 1), evs @ [Printed (mysql_prefix @ m)]) \<and>
   except_handlers (OtherException m) evs =
     (Inl (SystemExit 1), evs @ [Printed (generic_prefix @ m)]) \<and>
   \<not> prefix generic_prefix (mysql_prefix @ m) \<and> \<not> prefix mysql_prefix (generic_prefix @ m) \<and>
   (DbError m \<in> set (raised (events en)) \<longrightarrow>
      exit_code en = 1 \<and> last (events en) = Printed (mysql_prefix @ m)) \<and>
   (OtherError m \<in> set (raised (events en)) \<longrightarrow>
      exit_code en = 1 \<and> last (events en) = Printed (generic_prefix @ m)) \<and>
   (connect_reply en = Some (DbError m) \<longrightarrow>
      exit_code en = 1 \<and> stdout en = [connecting_msg, mysql_prefix @ m])"
proof -
  have "except_handlers (MySQLError m) evs = (Inl (SystemExit 1), evs @ [Printed (mysql_prefix @ m)])"
    using handle_lib_error [of "DbError m" evs] by simp
  moreover have "except_handlers (OtherException m) evs =
     (Inl (SystemExit 1), evs @ [Printed (generic_prefix @ m)])"
    using handle_lib_error [of "OtherError m" evs] by simp
  moreover have "DbError m \<in> set (raised (events en)) \<Longrightarrow>
      exit_code en = 1 \<and> last (events en) = Printed (mysql_prefix @ m)"
    using run_raised [of "DbError m" en] by simp
  moreover have "OtherError m \<in> set (raised (events en)) \<Longrightarrow>
      exit_code en = 1 \<and> last (events en) = Printed (generic_prefix @ m)"
    using run_raised [of "OtherError m" en] by simp
  moreover have "connect_reply en = Some (DbError m) \<Longrightarrow>
      exit_code en = 1 \<and> stdout en = [connecting_msg, mysql_prefix @ m]"
    using run_connect_raises [of en "DbError m"] by (simp add: stdout_def)
  ultimately show ?thesis using prefixes_differ [of m] by blast
qed

theorem error_classes_witness:
  "connect_reply env_bad_login = Some (DbError access_denied) \<and>
   exit_code env_bad_login = 1 \<and>
   stdout env_bad_login = [connecting_msg, mysql_prefix @ access_denied] \<and>
   OtherError ''out of memory'' \<in> set (raised (events env_no_cursor)) \<and>
   exit_code env_no_cursor = 1 \<and>
   last (events env_no_cursor) = Printed (generic_prefix @ ''out of memory'')"
proof -
  have a: "connect_reply env_bad_login = Some (DbError access_denied)"
    by (simp add: reply_defs env_defs)
  have "connect_reply env_no_cursor = None" "cursor_reply env_no_cursor = Some (OtherError ''out of memory'')"
    by (simp_all add: reply_defs env_defs)
  from run_of_body_raise [OF body_cursor_raises [OF this]]
  have b: "OtherError ''out of memory'' \<in> set (raised (events env_no_cursor))"
    by (simp add: evs_defs)
  from error_classes [of access_denied "[]" env_bad_login] a
  have "exit_code env_bad_login = 1 \<and>
        stdout env_bad_login = [connecting_msg, mysql_prefix @ access_denied]"
    by blast
  moreover from error_classes [of "''out of memory''" "[]" env_no_cursor] b
  have "exit_code env_no_cursor = 1 \<and>
        last (events env_no_cursor) = Printed (generic_prefix @ ''out of memory'')"
    by blast
  ultimately show ?thesis using a b by blast
qed

subsection \<open>The column listing\<close>

text \<open>
  Claim C6. For rows that carry the name, type and null-flag fields, the loop of lines 63-64
  prints one line per row, in order: the name, the type, and \<^verbatim>\<open>NOT NULL\<close> exactly when
  the null flag is the string \<^verbatim>\<open>'NO'\<close>, \<^verbatim>\<open>NULL\<close> otherwise. In a run, these
  lines follow the heading of line 62, one for every row that \<^verbatim>\<open>DESCRIBE access_logs\<close>
  returned.
\<close>

theorem column_annotation:
  "\<forall>c \<in> set cols. 3 \<le> length c \<Longrightarrow>
   print_columns cols evs =
     (Inr (),
      evs @ map (\<lambda>c. Printed (''  - '' @ py_str (c ! 0) @ '': '' @ py_str (c ! 1) @ '' '' @
                   (if c ! 2 = PyStr ''NO'' then ''NOT NULL'' else ''NULL''))) cols) \<and>
   (verified en res \<and> res \<noteq> [] \<and> describe_reply en = None \<and> describe_rows en = Inr cols \<longrightarrow>
      prefix
        (evs_listing res cols @
         map (\<lambda>c. Printed (''  - '' @ py_str (c ! 0) @ '': '' @ py_str (c ! 1) @ '' '' @
                (if c ! 2 = PyStr ''NO'' then ''NOT NULL'' else ''NULL''))) cols)
        (events en))"
proof -
  assume "\<forall>c \<in> set cols. 3 \<le> length c"
  then have wf: "list_all well_formed cols"
    by (simp add: list_all_iff well_formed_def)
  then have "print_columns cols evs = (Inr (), evs @ map (\<lambda>c. Printed (column_line c)) cols)"
    by (rule print_columns_ok)
  moreover have "prefix (evs_listing res cols @ map (\<lambda>c. Printed (column_line c)) cols) (events en)"
    if "verified en res" "res \<noteq> []" "describe_reply en = None" "describe_rows en = Inr cols"
    using run_listing [OF that wf] by (simp add: evs_cursor_close_def)
  ultimately show ?thesis
    unfolding column_line_def by blast
qed

theorem column_annotation_witness:
  "list_all (\<lambda>c. 3 \<le> length c) access_logs_rows \<and>
   fst (print_columns access_logs_rows []) = Inr () \<and>
   printed_of (snd (print_columns access_logs_rows [])) = seven_lines"
proof -
  have h: "\<forall>c \<in> set access_logs_rows. 3 \<le> length c"
    by (simp add: access_logs_rows_def)
  from column_annotation [OF h, of "[]"]
  have "print_columns access_logs_rows [] =
          (Inr (), map (\<lambda>c. Printed (column_line c)) access_logs_rows)"
    by (simp add: column_line_def)
  with h lines_access_logs_rows show ?thesis by (simp add: list_all_iff)
qed


lemma legacy_succeeds: "all_steps_succeed env_legacy"
  by (simp add: all_steps_succeed_def named_steps_succeed_def reply_defs env_defs well_formed_def)

text \<open>
  Claim C7 as stated fails: when \<^verbatim>\<open>access_logs\<close> exists before the run with another
  structure, the conditional DDL leaves it alone, the run succeeds, and the listing shows the
  columns of the table that is there, not the seven of the DDL.
\<close>

theorem listing_follows_catalog_counterexample:
  "exit_code env_legacy = 0 \<and>
   stdout env_legacy =
     [connecting_msg, connected_msg, creating_msg, created_msg, verification_msg 1,
      structure_msg, ''  - log_id: bigint NOT NULL'', done_msg] \<and>
   stdout env_legacy \<noteq>
     [connecting_msg, connected_msg, creating_msg, created_msg, verification_msg 1,
      structure_msg] @ seven_lines @ [done_msg]"
proof -
  have ex: "exit_code env_legacy = 0"
    using exit_code_eq [of env_legacy] legacy_succeeds by simp
  have "rows_of (show_rows env_legacy) = [[PyStr ''access_logs'']]"
    "rows_of (describe_rows env_legacy) =
       [[PyStr ''log_id'', PyStr ''bigint'', PyStr ''NO'', PyStr ''PRI'', PyOther ''None'', PyStr []]]"
    by (simp_all add: reply_defs env_defs)
  with run_success [OF ex]
  have "stdout env_legacy =
     [connecting_msg, connected_msg, creating_msg, created_msg, verification_msg 1,
      structure_msg, ''  - log_id: bigint NOT NULL'', done_msg]"
    by (simp add: stdout_def success_events_def column_line_def)
  with ex show ?thesis by (simp add: seven_lines_def)
qed

text \<open>
  Claim C7, as amended. On a successful run the output is the six status lines, one line per
  row that \<^verbatim>\<open>DESCRIBE access_logs\<close> returned, in order, and the closing line. The listing
  is the seven columns of the schema, with their annotations, when the catalog reports the
  structure of the DDL.
\<close>

theorem listing_follows_catalog:
  "exit_code en = 0 \<Longrightarrow>
   stdout en =
     [connecting_msg, connected_msg, creating_msg, created_msg,
      verification_msg (length (rows_of (show_rows en))), structure_msg] @
     map column_line (rows_of (describe_rows en)) @ [done_msg] \<and>
   (rows_of (describe_rows en) = access_logs_rows \<longrightarrow>
      map column_line (rows_of (describe_rows en)) = seven_lines)"
  using run_success [of en] lines_access_logs_rows
  by (simp add: stdout_def success_events_def)

theorem listing_follows_catalog_witness:
  "exit_code env_fresh = 0 \<and>
   stdout env_fresh =
     [connecting_msg, connected_msg, creating_msg, created_msg, verification_msg 1,
      structure_msg] @ seven_lines @ [done_msg]"
proof -
  have ex: "exit_code env_fresh = 0"
    using exit_code_eq [of env_fresh] fresh_succeeds by simp
  have rows: "rows_of (show_rows env_fresh) = [[PyStr ''access_logs'']]"
    "rows_of (describe_rows env_fresh) = access_logs_rows"
    by (simp_all add: reply_defs env_defs)
  from listing_follows_catalog [OF ex] show ?thesis
    using ex by (simp add: rows)
qed

subsection \<open>Release of the cursor and the connection\<close>

text \<open>
  Claim C8. When no statement of the \<^verbatim>\<open>try\<close> block raises and the verification finds
  the table, the process exits with code 0; and a run that exits with code 0 has closed the
  cursor, then the connection, both successfully, before its last print and its exit.
\<close>

theorem success_releases:
  "(all_steps_succeed en \<longrightarrow> exit_code en = 0) \<and>
   (exit_code en = 0 \<longrightarrow>
      suffix [Called CursorClose None, Called ConnectionClose None, Printed done_msg] (events en))"
proof -
  have "exit_code en = 0 \<Longrightarrow>
      suffix [Called CursorClose None, Called ConnectionClose None, Printed done_msg] (events en)"
    using run_success [of en] by (simp add: success_events_def suffix_def)
  then show ?thesis using exit_code_eq [of en] by simp
qed

theorem success_releases_witness:
  "all_steps_succeed env_fresh \<and> exit_code env_fresh = 0 \<and>
   suffix [Called CursorClose None, Called ConnectionClose None, Printed done_msg]
     (events env_fresh)"
  using success_releases [of env_fresh] fresh_succeeds by blast

text \<open>
  Claim C9. A \<^verbatim>\<open>SystemExit\<close> raised inside the \<^verbatim>\<open>try\<close> block passes both handlers
  unchanged and without a print. So the verification-failure path exits with code 1 with the
  message of line 66 as its last output, and the success path exits with code 0 with the
  message of line 72 as its last output.
\<close>

theorem system_exit_not_intercepted:
  "except_handlers (SystemExit n) evs = (Inl (SystemExit n), evs) \<and>
   try_except (sys_exit n) evs = (Inl (SystemExit n), evs) \<and>
   (verified en [] \<longrightarrow> exit_code en = 1 \<and> last (events en) = Printed not_found_msg) \<and>
   (all_steps_succeed en \<longrightarrow> exit_code en = 0 \<and> last (events en) = Printed done_msg)"
proof -
  have "try_except (sys_exit n) evs = (Inl (SystemExit n), evs)"
    by (simp add: try_except_def sys_exit_def handle_system_exit)
  moreover have "verified en [] \<Longrightarrow> exit_code en = 1 \<and> last (events en) = Printed not_found_msg"
    using run_not_found [of en] by simp
  moreover have "all_steps_succeed en \<Longrightarrow> exit_code en = 0 \<and> last (events en) = Printed done_msg"
    using run_success [of en] exit_code_eq [of en] by (simp add: success_events_def)
  ultimately show ?thesis using handle_system_exit [of n evs] by blast
qed

theorem system_exit_not_intercepted_witness:
  "verified env_not_found [] \<and> exit_code env_not_found = 1 \<and>
   last (events env_not_found) = Printed not_found_msg \<and>
   all_steps_succeed env_fresh \<and> exit_code env_fresh = 0 \<and>
   last (events env_fresh) = Printed done_msg"
  using system_exit_not_intercepted [of 0 "[]" env_not_found]
    system_exit_not_intercepted [of 0 "[]" env_fresh] not_found_verified fresh_succeeds
  by blast

lemma close_fails_run:
  "exit_code env_close_fails = 1 \<and>
   events env_close_fails =
     evs_connection_close [[PyStr ''access_logs'']] access_logs_rows @
     [Called ConnectionClose (Some (DbError lost_connection)),
      Printed (error_line (DbError lost_connection))]"
proof -
  have v: "verified env_close_fails [[PyStr ''access_logs'']]"
    and d1: "describe_reply env_close_fails = None"
    and d2: "describe_rows env_close_fails = Inr access_logs_rows"
    and r1: "cursor_close_reply env_close_fails = None"
    and r2: "connection_close_reply env_close_fails = Some (DbError lost_connection)"
    by (simp_all add: verified_def reply_defs env_defs)
  have ne: "[[PyStr ''access_logs'']] \<noteq> []"
    by simp
  from run_of_body_raise
    [OF body_connection_close_raises [OF v ne d1 d2 well_formed_access_logs_rows r1 r2]]
  show ?thesis by simp
qed

text \<open>
  Claim C10 as stated fails: when \<^verbatim>\<open>connection.close()\<close> raises, the handler exits with
  code 1 after the cursor has been closed on line 69.
\<close>

theorem cursor_released_on_failure_counterexample:
  "exit_code env_close_fails = 1 \<and> Called CursorClose None \<in> set (events env_close_fails)"
  using close_fails_run by (simp add: evs_defs)

text \<open>
  Claim C10, as amended. A run that exits with code 1 never releases the connection. A close
  call appears in it only when the failure is that of a close call itself (the handlers and
  the verification-failure branch call neither), and the cursor has been released only when
  the failing call is \<^verbatim>\<open>connection.close()\<close>.
\<close>

theorem failure_paths_release:
  "exit_code en = 1 \<Longrightarrow>
   Called ConnectionClose None \<notin> set (events en) \<and>
   (CursorClose \<in> set (calls_of (events en)) \<or> ConnectionClose \<in> set (calls_of (events en)) \<longrightarrow>
      (\<exists>e. raised (events en) = [e] \<and>
           (cursor_close_reply en = Some e \<or> connection_close_reply en = Some e))) \<and>
   (Called CursorClose None \<in> set (events en) \<longrightarrow>
      (\<exists>e. connection_close_reply en = Some e))"
  by (cases en rule: run_cases) (auto simp add: evs_defs)

theorem failure_paths_release_witness:
  "exit_code env_not_found = 1 \<and>
   Called ConnectionClose None \<notin> set (events env_not_found) \<and>
   Called CursorClose None \<notin> set (events env_not_found) \<and>
   exit_code env_close_fails = 1 \<and>
   Called ConnectionClose None \<notin> set (events env_close_fails) \<and>
   connection_close_reply env_close_fails = Some (DbError lost_connection)"
proof -
  have a: "exit_code env_not_found = 1" and b: "connection_close_reply env_not_found = None"
    using run_not_found [OF not_found_verified] by (simp_all add: reply_defs env_defs)
  have c: "exit_code env_close_fails = 1"
    using close_fails_run by simp
  have d: "connection_close_reply env_close_fails = Some (DbError lost_connection)"
    by (simp add: reply_defs env_defs)
  from failure_paths_release [OF a] failure_paths_release [OF c] a b c d
  show ?thesis by auto
qed

subsection \<open>Idempotence\<close>

lemma words_create:
  "sql_words 6 create_table_sql = [''CREATE'', ''TABLE'', ''IF'', ''NOT'', ''EXISTS'', ''access_logs'']"
  unfolding create_table_sql_def by (simp add: eval_nat_numeral next_word_def is_space_def)

lemma parse_create: "parse_stmt create_table_sql = Some (CreateIfNotExists ''access_logs'')"
  by (simp add: parse_stmt_def words_create)

lemma words_show:
  "sql_words 6 show_tables_sql = [''SHOW'', ''TABLES'', ''LIKE'', [CHR 0x27] @ ''access_logs'' @ [CHR 0x27]]"
  unfolding show_tables_sql_def by (simp add: eval_nat_numeral next_word_def is_space_def)

lemma parse_show: "parse_stmt show_tables_sql = Some (ShowTablesLike ''access_logs'')"
  by (simp add: parse_stmt_def words_show unquote_def)

lemma words_describe: "sql_words 6 describe_sql = [''DESCRIBE'', ''access_logs'']"
  unfolding describe_sql_def by (simp add: eval_nat_numeral next_word_def is_space_def)

lemma parse_describe: "parse_stmt describe_sql = Some (Describe ''access_logs'')"
  by (simp add: parse_stmt_def words_describe)

lemma like_self: "like_match ''access_logs'' ''access_logs''"
  by simp


lemmas parse_simps = parse_create parse_show parse_describe

lemma step_keeps_catalog:
  "map_of (catalog s) ''access_logs'' = Some t \<Longrightarrow> c \<in> set script_calls \<Longrightarrow>
   catalog (snd (server_step b s c)) = catalog s"
  by (auto simp add: script_calls_def srv_execute_def parse_simps split: option.splits)

lemma after_keeps_catalog:
  "map_of (catalog s) ''access_logs'' = Some t \<Longrightarrow> set cs \<subseteq> set script_calls \<Longrightarrow>
   catalog (server_after b s cs) = catalog s"
proof (induction cs arbitrary: s)
  case Nil
  then show ?case by (simp add: server_after_def)
next
  case (Cons c cs)
  from Cons.prems have c: "catalog (snd (server_step b s c)) = catalog s"
    by (simp add: step_keeps_catalog)
  with Cons.prems have "map_of (catalog (snd (server_step b s c))) ''access_logs'' = Some t"
    by simp
  from Cons.IH [OF this] Cons.prems c show ?case
    by (simp add: server_after_def)
qed

lemma run_keeps_catalog:
  assumes "map_of (catalog s) ''access_logs'' = Some t"
  shows "catalog (after_run b s) = catalog s"
  unfolding after_run_def
  using assms set_mono_prefix [OF calls_prefix] by (rule after_keeps_catalog)

lemma step_keeps_login: "accepts_login (snd (server_step b s c)) = accepts_login s"
  by (cases c) (simp_all add: srv_execute_def split: option.splits stmt.splits sum.splits)

lemma after_keeps_login: "accepts_login (server_after b s cs) = accepts_login s"
  by (induction cs arbitrary: s) (simp_all add: server_after_def step_keeps_login)

lemma show_nonempty:
  assumes "map_of cat ''access_logs'' = Some t"
  shows "filter (\<lambda>nt. like_match ''access_logs'' (fst nt)) cat \<noteq> []"
proof -
  from assms have "(''access_logs'', t) \<in> set cat"
    by (rule map_of_SomeD)
  then show ?thesis using like_self by (force simp add: filter_empty_conv)
qed

lemma well_formed_describe_rows: "list_all well_formed (map describe_row cols)"
  by (simp add: list_all_iff well_formed_def describe_row_def)

lemma server_run_succeeds:
  assumes login: "accepts_login s" and tbl: "map_of (catalog s) ''access_logs'' = Some t"
  shows "all_steps_succeed (env_of_server b s)"
  using assms show_nonempty [OF tbl] well_formed_describe_rows
  by (simp add: all_steps_succeed_def named_steps_succeed_def reply_defs env_of_server_def
      server_after_def srv_execute_def parse_simps)


lemma server_after_append:
  "server_after b s (xs @ ys) = server_after b (server_after b s xs) ys"
  by (simp add: server_after_def)

lemma create_installs_table:
  assumes "fst (srv_execute b s create_table_sql) = Inr r"
  shows "\<exists>t. map_of (catalog (snd (srv_execute b s create_table_sql))) ''access_logs'' = Some t"
  using assms
  by (auto simp add: srv_execute_def parse_simps map_add_Some_iff
      split: option.splits sum.splits)

lemma first_run_login:
  assumes "connect_reply (env_of_server b s) = None"
  shows "accepts_login s"
  using assms
  by (simp add: connect_reply_def env_of_server_def server_after_def split: if_splits)

lemma first_run_table:
  assumes "create_reply (env_of_server b s) = None"
  shows "\<exists>t. map_of (catalog (server_after b s [Connect, Cursor, Execute create_table_sql]))
               ''access_logs'' = Some t"
proof -
  let ?s2 = "server_after b s [Connect, Cursor]"
  from assms obtain r where "fst (srv_execute b ?s2 create_table_sql) = Inr r"
    by (auto simp add: create_reply_def env_of_server_def split: sum.splits)
  from create_installs_table [OF this] show ?thesis
    by (simp add: server_after_def)
qed

lemma script_calls_split:
  "script_calls =
     [Connect, Cursor, Execute create_table_sql] @
     [Commit, Execute show_tables_sql, Fetchall, Execute describe_sql, Fetchall, CursorClose,
      ConnectionClose]"
  by (simp add: script_calls_def)

lemma first_run_leaves_table:
  assumes "exit_code (env_of_server b s) = 0"
  shows "accepts_login (after_run b s) \<and>
         (\<exists>t. map_of (catalog (after_run b s)) ''access_logs'' = Some t)"
proof -
  from assms have ok: "all_steps_succeed (env_of_server b s)"
    using exit_code_eq [of "env_of_server b s"] by (simp split: if_splits)
  then have "connect_reply (env_of_server b s) = None" "create_reply (env_of_server b s) = None"
    by (simp_all add: all_steps_succeed_def named_steps_succeed_def)
  from first_run_login [OF this(1)] first_run_table [OF this(2)]
  obtain t where login: "accepts_login s"
    and t: "map_of (catalog (server_after b s [Connect, Cursor, Execute create_table_sql]))
              ''access_logs'' = Some t"
    by blast
  have run: "after_run b s = server_after b s script_calls"
    by (simp add: after_run_def calls_success [OF assms])
  have "catalog (after_run b s) =
        catalog (server_after b s [Connect, Cursor, Execute create_table_sql])"
    unfolding run
    by (subst script_calls_split, subst server_after_append, rule after_keeps_catalog [OF t])
       (auto simp add: script_calls_def)
  with t login show ?thesis
    by (simp add: run after_keeps_login)
qed

text \<open>
  Claim C3. The DDL is a conditional create of \<^verbatim>\<open>access_logs\<close>. Run against a server
  that already has the table, the script leaves the whole catalog, so the structure and the
  data of the table, as they were. And when a run exits with code 0, a second run right after
  it exits with code 0 too and leaves the catalog as the first run left it.
\<close>

theorem conditional_create_idempotent:
  "parse_stmt create_table_sql = Some (CreateIfNotExists ''access_logs'') \<and>
   (map_of (catalog s) ''access_logs'' = Some t \<longrightarrow> catalog (after_run b s) = catalog s) \<and>
   (exit_code (env_of_server b s) = 0 \<longrightarrow>
      exit_code (env_of_server b (after_run b s)) = 0 \<and>
      catalog (after_run b (after_run b s)) = catalog (after_run b s))"
proof -
  have "exit_code (env_of_server b (after_run b s)) = 0 \<and>
        catalog (after_run b (after_run b s)) = catalog (after_run b s)"
    if "exit_code (env_of_server b s) = 0"
  proof -
    from first_run_leaves_table [OF that] obtain t'
      where login: "accepts_login (after_run b s)"
        and t': "map_of (catalog (after_run b s)) ''access_logs'' = Some t'"
      by blast
    from server_run_succeeds [OF login t'] run_keeps_catalog [OF t'] show ?thesis
      by (simp add: exit_code_eq)
  qed
  then show ?thesis using parse_create run_keeps_catalog [of s t b] by blast
qed


lemma describe_access_logs_columns: "map describe_row access_logs_columns = access_logs_rows"
  by (simp add: access_logs_columns_def access_logs_rows_def describe_row_def)

lemma initial_run_succeeds: "all_steps_succeed (env_of_server mysql_builder srv_initial)"
  using well_formed_describe_rows [of access_logs_columns]
  by (simp add: all_steps_succeed_def named_steps_succeed_def reply_defs env_of_server_def
      server_after_def srv_execute_def parse_simps mysql_builder_def srv_initial_def)

lemma initial_run_catalog:
  "catalog (server_after mysql_builder srv_initial script_calls) =
     catalog srv_initial @ [(''access_logs'', \<lparr>tbl_columns = access_logs_columns, tbl_rows = []\<rparr>)]"
  by (simp add: script_calls_def server_after_def srv_execute_def parse_simps mysql_builder_def
      srv_initial_def)

theorem conditional_create_idempotent_witness:
  "map_of (catalog srv_initial) ''access_logs'' = None \<and>
   exit_code (env_of_server mysql_builder srv_initial) = 0 \<and>
   map_of (catalog (after_run mysql_builder srv_initial)) ''access_logs'' =
     Some \<lparr>tbl_columns = access_logs_columns, tbl_rows = []\<rparr> \<and>
   exit_code (env_of_server mysql_builder (after_run mysql_builder srv_initial)) = 0 \<and>
   catalog (after_run mysql_builder (after_run mysql_builder srv_initial)) =
     catalog (after_run mysql_builder srv_initial)"
proof -
  have ex: "exit_code (env_of_server mysql_builder srv_initial) = 0"
    using initial_run_succeeds by (simp add: exit_code_eq)
  have "catalog (after_run mysql_builder srv_initial) =
     catalog srv_initial @ [(''access_logs'', \<lparr>tbl_columns = access_logs_columns, tbl_rows = []\<rparr>)]"
    by (simp add: after_run_def calls_success [OF ex] initial_run_catalog)
  then have tbl: "map_of (catalog (after_run mysql_builder srv_initial)) ''access_logs'' =
     Some \<lparr>tbl_columns = access_logs_columns, tbl_rows = []\<rparr>"
    by (simp add: srv_initial_def)
  have "map_of (catalog srv_initial) ''access_logs'' = None"
    by (simp add: srv_initial_def)
  with conditional_create_idempotent [of srv_initial undefined mysql_builder] ex tbl
  show ?thesis by blast
qed

end
